theory Spec2Isabelle
  imports Complex_Main "HOL-Library.AList" "HOL-Library.Char_ord" "HOL-Library.List_Lexorder"
begin

section \<open>Python values\<close>

text \<open>
  The generator works on untyped trees: what \<^verbatim>\<open>yaml.safe_load\<close> and \<^verbatim>\<open>json.load\<close>
  return, and what the dataclasses hold (Python does not check the annotations of a
  dataclass, so a field holds whatever value it was given). A dictionary is an
  association list in insertion order, looked up by first match. Floating-point
  numbers are a type parameter \<open>'f\<close>: nothing here computes with them. \<open>PDate\<close> carries
  the ISO-8601 text of a \<^verbatim>\<open>datetime.date\<close> or \<^verbatim>\<open>datetime.datetime\<close> object.
\<close>

datatype 'f pyval =
    PNone
  | PBool bool
  | PInt int
  | PFloat 'f
  | PStr string
  | PDate string
  | PList "'f pyval list"
  | PDict "('f pyval \<times> 'f pyval) list"

type_synonym 'f pydict = "('f pyval \<times> 'f pyval) list"

text \<open>The exceptions that the modelled code can raise, by their Python names.\<close>

datatype error =
    FileNotFoundError
  | IsADirectoryError
  | YAMLError
  | JSONDecodeError
  | KeyError string
  | TypeError
  | ValueError
  | AttributeError
  | TemplateNotFound
  | TemplateError

text \<open>
  Library functions that the code calls and that are not part of the repository are
  the fields of one record, passed to every function that needs them:
  the two parsers (\<open>None\<close> when the text does not parse), \<^verbatim>\<open>float()\<close> (\<open>None\<close>
  when it raises), \<^verbatim>\<open>str()\<close> of a value that is not already a string, \<^verbatim>\<open>==\<close>
  between two values neither of which is a string or \<^verbatim>\<open>None\<close>, the truth value of
  a float, \<^verbatim>\<open>os.path.relpath\<close>, and what \<^verbatim>\<open>json.load\<close> reads back from the output of
  \<^verbatim>\<open>json.dump\<close> for a value that is serialised with a change (\<open>None\<close> when
  \<^verbatim>\<open>json.dump\<close> raises).
\<close>

record 'f lib =
  yaml_safe_load :: "string \<Rightarrow> 'f pyval option"
  json_load :: "string \<Rightarrow> 'f pyval option"
  py_float :: "'f pyval \<Rightarrow> 'f option"
  str_other :: "'f pyval \<Rightarrow> string"
  eq_other :: "'f pyval \<Rightarrow> 'f pyval \<Rightarrow> bool"
  float_truthy :: "'f \<Rightarrow> bool"
  relpath :: "string \<Rightarrow> string \<Rightarrow> string"
  json_reload :: "'f pyval \<Rightarrow> 'f pyval option"

definition py_str :: "'f lib \<Rightarrow> 'f pyval \<Rightarrow> string" where
  "py_str L v = (case v of PStr s \<Rightarrow> s | _ \<Rightarrow> str_other L v)"

definition py_eq :: "'f lib \<Rightarrow> 'f pyval \<Rightarrow> 'f pyval \<Rightarrow> bool" where
  "py_eq L a b =
     (case a of
        PStr s \<Rightarrow> b = PStr s
      | PNone \<Rightarrow> b = PNone
      | _ \<Rightarrow> (case b of PStr t \<Rightarrow> False | PNone \<Rightarrow> False | _ \<Rightarrow> eq_other L a b))"

definition truthy :: "'f lib \<Rightarrow> 'f pyval \<Rightarrow> bool" where
  "truthy L v =
     (case v of
        PNone \<Rightarrow> False
      | PBool b \<Rightarrow> b
      | PInt i \<Rightarrow> i \<noteq> 0
      | PFloat x \<Rightarrow> float_truthy L x
      | PStr s \<Rightarrow> s \<noteq> []
      | PDate d \<Rightarrow> True
      | PList xs \<Rightarrow> xs \<noteq> []
      | PDict kvs \<Rightarrow> kvs \<noteq> [])"

text \<open>Iteration (\<^verbatim>\<open>for x in v\<close>): a string yields its characters, a dictionary its keys.\<close>

definition py_iter :: "'f pyval \<Rightarrow> error + 'f pyval list" where
  "py_iter v =
     (case v of
        PList xs \<Rightarrow> Inr xs
      | PStr s \<Rightarrow> Inr (map (\<lambda>c. PStr [c]) s)
      | PDict kvs \<Rightarrow> Inr (map fst kvs)
      | _ \<Rightarrow> Inl TypeError)"

definition hashable :: "'f pyval \<Rightarrow> bool" where
  "hashable v = (case v of PList xs \<Rightarrow> False | PDict kvs \<Rightarrow> False | _ \<Rightarrow> True)"

definition dict_get :: "'f pydict \<Rightarrow> string \<Rightarrow> 'f pyval option" where
  "dict_get d k = map_of d (PStr k)"

definition dict_set :: "'f pydict \<Rightarrow> string \<Rightarrow> 'f pyval \<Rightarrow> 'f pydict" where
  "dict_set d k v = AList.update (PStr k) v d"

text \<open>
  \<^verbatim>\<open>dict(v)\<close>: a dictionary is copied; anything else is iterated and every element
  must itself be a sequence of length two (\<^verbatim>\<open>ValueError\<close> otherwise) with a hashable
  first component.
\<close>

definition dict_add_item :: "'f pydict \<Rightarrow> 'f pyval \<Rightarrow> error + 'f pydict" where
  "dict_add_item d e =
     (case py_iter e of
        Inl err \<Rightarrow> Inl TypeError
      | Inr kv \<Rightarrow>
          if length kv \<noteq> 2 then Inl ValueError
          else if hashable (kv ! 0) then Inr (AList.update (kv ! 0) (kv ! 1) d)
          else Inl TypeError)"

fun dict_add_items :: "'f pydict \<Rightarrow> 'f pyval list \<Rightarrow> error + 'f pydict" where
  "dict_add_items d [] = Inr d"
| "dict_add_items d (e # es) =
     (case dict_add_item d e of Inl err \<Rightarrow> Inl err | Inr d' \<Rightarrow> dict_add_items d' es)"

definition py_dict :: "'f pyval \<Rightarrow> error + 'f pydict" where
  "py_dict v =
     (case v of
        PDict kvs \<Rightarrow> Inr kvs
      | _ \<Rightarrow> (case py_iter v of Inl err \<Rightarrow> Inl err | Inr es \<Rightarrow> dict_add_items [] es))"

text \<open>
  Calling a dataclass with \<^verbatim>\<open>**d\<close>: every key must be a string naming a field, and
  every field without a default must be given; anything else is a \<^verbatim>\<open>TypeError\<close>.
\<close>

definition kwargs_ok :: "string list \<Rightarrow> string list \<Rightarrow> 'f pydict \<Rightarrow> bool" where
  "kwargs_ok names required d =
     (list_all (\<lambda>k. case k of PStr s \<Rightarrow> s \<in> set names | _ \<Rightarrow> False) (map fst d)
      \<and> list_all (\<lambda>r. dict_get d r \<noteq> None) required)"

definition kwarg :: "'f pydict \<Rightarrow> string \<Rightarrow> 'f pyval \<Rightarrow> 'f pyval" where
  "kwarg d k dflt = (case dict_get d k of Some v \<Rightarrow> v | None \<Rightarrow> dflt)"

section \<open>The data model\<close>

text \<open>
  The three dataclasses. Every field holds a Python value; an absent optional field
  is \<open>PNone\<close>. The field \<^verbatim>\<open>date\<close> of \<^verbatim>\<open>ArticleMeta\<close> is \<open>meta_date\<close> here, since
  \<open>date\<close> names the field of \<^verbatim>\<open>Review\<close>.
\<close>

record 'f Review =
  author :: "'f pyval"
  rating :: "'f pyval"
  date :: "'f pyval"
  content :: "'f pyval"
  pros :: "'f pyval"
  cons :: "'f pyval"
  images :: "'f pyval"

record 'f ArticleMeta =
  title :: "'f pyval"
  slug :: "'f pyval"
  description :: "'f pyval"
  meta_date :: "'f pyval"
  tags :: "'f pyval"
  hero_image :: "'f pyval"
  cover_credit :: "'f pyval"

record 'f ArticleData =
  article :: "'f ArticleMeta"
  reviews :: "'f Review list"
  gallery_dir :: "'f pyval"

definition Review_kwargs :: "'f pydict \<Rightarrow> error + 'f Review" where
  "Review_kwargs d =
     (if kwargs_ok [''author'', ''rating'', ''date'', ''content'', ''pros'', ''cons'', ''images'']
           [''author''] d
      then Inr \<lparr>author = kwarg d ''author'' PNone,
                rating = kwarg d ''rating'' PNone,
                date = kwarg d ''date'' PNone,
                content = kwarg d ''content'' (PStr ''''),
                pros = kwarg d ''pros'' (PList []),
                cons = kwarg d ''cons'' (PList []),
                images = kwarg d ''images'' (PList [])\<rparr>
      else Inl TypeError)"

definition ArticleMeta_kwargs :: "'f pydict \<Rightarrow> error + 'f ArticleMeta" where
  "ArticleMeta_kwargs d =
     (if kwargs_ok [''title'', ''slug'', ''description'', ''date'', ''tags'', ''hero_image'',
            ''cover_credit''] [''title'', ''slug''] d
      then Inr \<lparr>title = kwarg d ''title'' PNone,
                slug = kwarg d ''slug'' PNone,
                description = kwarg d ''description'' PNone,
                meta_date = kwarg d ''date'' PNone,
                tags = kwarg d ''tags'' (PList []),
                hero_image = kwarg d ''hero_image'' PNone,
                cover_credit = kwarg d ''cover_credit'' PNone\<rparr>
      else Inl TypeError)"

section \<open>Strings and paths\<close>

text \<open>
  Strings are lists of characters below 256, ordered as Python orders them (by code
  point, a proper prefix first). \<open>lower\<close> maps the letters A to Z and leaves every
  other character as it is. Python's \<^verbatim>\<open>str.lower\<close> also changes letters outside
  ASCII, but it turns none of them into an ASCII character alone, so the test of a
  lower-cased name against an ASCII suffix, the only use of \<open>lower\<close> here, has the
  same result.
\<close>

definition lower_char :: "char \<Rightarrow> char" where
  "lower_char c =
     (case map_of (zip ''ABCDEFGHIJKLMNOPQRSTUVWXYZ'' ''abcdefghijklmnopqrstuvwxyz'') c of
        Some d \<Rightarrow> d
      | None \<Rightarrow> c)"

definition lower :: "string \<Rightarrow> string" where
  "lower s = map lower_char s"

definition endswith :: "string \<Rightarrow> string \<Rightarrow> bool" where
  "endswith s suf = (length suf \<le> length s \<and> drop (length s - length suf) s = suf)"

text \<open>\<^verbatim>\<open>os.path.join\<close> of two components, on a POSIX system.\<close>

definition path_join :: "string \<Rightarrow> string \<Rightarrow> string" where
  "path_join a b =
     (if b \<noteq> [] \<and> hd b = CHR ''/'' then b
      else if a = [] \<or> last a = CHR ''/'' then a @ b
      else a @ ''/'' @ b)"

section \<open>The loader\<close>

definition to_str_if_date :: "'f pyval \<Rightarrow> 'f pyval" where
  "to_str_if_date v = (case v of PDate t \<Rightarrow> PStr t | _ \<Rightarrow> v)"

text \<open>
  The three normalisation steps of \<^verbatim>\<open>load_article_data\<close>, each guarded in the source by
  \<^verbatim>\<open>key in d and d[key] is not None\<close>.
\<close>

definition norm_date :: "'f lib \<Rightarrow> 'f pydict \<Rightarrow> 'f pydict" where
  "norm_date L d =
     (case dict_get d ''date'' of
        None \<Rightarrow> d
      | Some v \<Rightarrow>
          if v \<noteq> PNone then dict_set d ''date'' (PStr (py_str L (to_str_if_date v))) else d)"

definition norm_str_list :: "'f lib \<Rightarrow> string \<Rightarrow> 'f pydict \<Rightarrow> error + 'f pydict" where
  "norm_str_list L key d =
     (case dict_get d key of
        None \<Rightarrow> Inr d
      | Some v \<Rightarrow>
          if v \<noteq> PNone then
            (case py_iter v of
               Inl err \<Rightarrow> Inl err
             | Inr xs \<Rightarrow> Inr (dict_set d key (PList (map (\<lambda>t. PStr (py_str L t)) xs))))
          else Inr d)"

definition norm_rating :: "'f lib \<Rightarrow> 'f pydict \<Rightarrow> 'f pydict" where
  "norm_rating L d =
     (case dict_get d ''rating'' of
        None \<Rightarrow> d
      | Some v \<Rightarrow>
          if v \<noteq> PNone then
            dict_set d ''rating'' (case py_float L v of Some x \<Rightarrow> PFloat x | None \<Rightarrow> PNone)
          else d)"

text \<open>The body of the loop over \<^verbatim>\<open>raw.get("reviews", [])\<close>, and the loop.\<close>

definition load_review :: "'f lib \<Rightarrow> 'f pyval \<Rightarrow> error + 'f Review" where
  "load_review L r =
     (case py_dict r of
        Inl err \<Rightarrow> Inl err
      | Inr d \<Rightarrow>
          (case norm_str_list L ''pros'' (norm_rating L (norm_date L d)) of
             Inl err \<Rightarrow> Inl err
           | Inr d' \<Rightarrow>
               (case norm_str_list L ''cons'' d' of
                  Inl err \<Rightarrow> Inl err
                | Inr d'' \<Rightarrow> Review_kwargs d'')))"

fun load_reviews :: "'f lib \<Rightarrow> 'f pyval list \<Rightarrow> error + 'f Review list" where
  "load_reviews L [] = Inr []"
| "load_reviews L (r # rs) =
     (case load_review L r of
        Inl err \<Rightarrow> Inl err
      | Inr rv \<Rightarrow> (case load_reviews L rs of Inl err \<Rightarrow> Inl err | Inr rvs \<Rightarrow> Inr (rv # rvs)))"

text \<open>
  Everything \<^verbatim>\<open>load_article_data\<close> does after the file is parsed. \<^verbatim>\<open>raw["article"]\<close>
  is a \<^verbatim>\<open>KeyError\<close> on a dictionary without the key and a \<^verbatim>\<open>TypeError\<close> on
  anything that is not a dictionary.
\<close>

definition article_data_of_raw :: "'f lib \<Rightarrow> 'f pyval \<Rightarrow> error + 'f ArticleData" where
  "article_data_of_raw L raw =
     (case raw of
        PDict kvs \<Rightarrow>
          (case dict_get kvs ''article'' of
             None \<Rightarrow> Inl (KeyError ''article'')
           | Some a \<Rightarrow>
               (case py_dict a of
                  Inl err \<Rightarrow> Inl err
                | Inr art_raw \<Rightarrow>
                    (case norm_str_list L ''tags'' (norm_date L art_raw) of
                       Inl err \<Rightarrow> Inl err
                     | Inr art_raw' \<Rightarrow>
                         (case ArticleMeta_kwargs art_raw' of
                            Inl err \<Rightarrow> Inl err
                          | Inr article_meta \<Rightarrow>
                              (case py_iter (kwarg kvs ''reviews'' (PList [])) of
                                 Inl err \<Rightarrow> Inl err
                               | Inr rs \<Rightarrow>
                                   (case load_reviews L rs of
                                      Inl err \<Rightarrow> Inl err
                                    | Inr rvs \<Rightarrow>
                                        Inr \<lparr>article = article_meta, reviews = rvs,
                                             gallery_dir = kwarg kvs ''gallery_dir'' PNone\<rparr>))))))
      | _ \<Rightarrow> Inl TypeError)"

text \<open>
  The input files are a map from path to text. The file is opened first; then the
  extension picks the parser: YAML for \<^verbatim>\<open>.yaml\<close> and \<^verbatim>\<open>.yml\<close>, JSON for every
  other path.
\<close>

definition is_yaml_path :: "string \<Rightarrow> bool" where
  "is_yaml_path file_path =
     (endswith (lower file_path) ''.yaml'' \<or> endswith (lower file_path) ''.yml'')"

definition parse_input :: "'f lib \<Rightarrow> string \<Rightarrow> string \<Rightarrow> error + 'f pyval" where
  "parse_input L file_path text =
     (if is_yaml_path file_path then
        (case yaml_safe_load L text of None \<Rightarrow> Inl YAMLError | Some raw \<Rightarrow> Inr raw)
      else
        (case json_load L text of None \<Rightarrow> Inl JSONDecodeError | Some raw \<Rightarrow> Inr raw))"

definition load_article_data ::
  "'f lib \<Rightarrow> (string \<rightharpoonup> string) \<Rightarrow> string \<Rightarrow> error + 'f ArticleData" where
  "load_article_data L files file_path =
     (case files file_path of
        None \<Rightarrow> Inl FileNotFoundError
      | Some text \<Rightarrow>
          (case parse_input L file_path text of
             Inl err \<Rightarrow> Inl err
           | Inr raw \<Rightarrow> article_data_of_raw L raw))"

section \<open>The renderer\<close>

text \<open>
  The images root and the assets directory are read through a map from path to node:
  a regular file with its text, or a directory with the names \<^verbatim>\<open>os.listdir\<close>
  returns, in the order it returns them.
\<close>

datatype node = File string | Dir "string list"

type_synonym filesys = "string \<rightharpoonup> node"

definition path_exists :: "filesys \<Rightarrow> string \<Rightarrow> bool" where
  "path_exists fs p = (fs p \<noteq> None)"

definition path_isdir :: "filesys \<Rightarrow> string \<Rightarrow> bool" where
  "path_isdir fs p = (case fs p of Some (Dir names) \<Rightarrow> True | _ \<Rightarrow> False)"

definition listdir :: "filesys \<Rightarrow> string \<Rightarrow> string list" where
  "listdir fs p = (case fs p of Some (Dir names) \<Rightarrow> names | _ \<Rightarrow> [])"

text \<open>
  The template engine is outside the repository: a template is a function from the
  rendering context to the text or an error, and the environment finds a template by
  name.
\<close>

datatype 'f template_context =
    ArticleContext string "'f ArticleMeta" "string option" "string list" "'f Review list"
  | IndexContext string "'f ArticleMeta list"

record 'f ArticleGenerator =
  env :: "string \<Rightarrow> ('f template_context \<Rightarrow> error + string) option"
  assets_dir :: string

definition load_styles :: "'f ArticleGenerator \<Rightarrow> filesys \<Rightarrow> error + string" where
  "load_styles G fs =
     (case fs (path_join (assets_dir G) ''styles.css'') of
        None \<Rightarrow> Inr []
      | Some (File text) \<Rightarrow> Inr text
      | Some (Dir names) \<Rightarrow> Inl IsADirectoryError)"

text \<open>
  \<^verbatim>\<open>resolve_image\<close>, the closure inside \<^verbatim>\<open>render_article\<close>. It returns the lines it
  printed together with its result. \<^verbatim>\<open>os.path.join\<close> raises \<^verbatim>\<open>TypeError\<close> when the
  path is not a string.
\<close>

definition warn_missing :: "string \<Rightarrow> string" where
  "warn_missing full = ''[yellow]Warn:[/yellow] missing image '' @ full"

definition resolve_image ::
  "'f lib \<Rightarrow> filesys \<Rightarrow> string \<Rightarrow> 'f pyval \<Rightarrow> string list \<times> (error + string option)" where
  "resolve_image L fs images_root path =
     (if \<not> truthy L path then ([], Inr None)
      else
        (case path of
           PStr p \<Rightarrow>
             (let full = path_join images_root p in
              if path_exists fs full then ([], Inr (Some (relpath L full images_root)))
              else ([warn_missing full], Inr None))
         | _ \<Rightarrow> ([], Inl TypeError)))"

text \<open>
  The comprehension \<^verbatim>\<open>[p for p in (resolve_image(p) for p in review.images) if p]\<close>:
  a resolved path is kept when it is a non-empty string.
\<close>

fun resolve_images ::
  "'f lib \<Rightarrow> filesys \<Rightarrow> string \<Rightarrow> 'f pyval list \<Rightarrow> string list \<times> (error + 'f pyval list)" where
  "resolve_images L fs images_root [] = ([], Inr [])"
| "resolve_images L fs images_root (p # ps) =
     (case resolve_image L fs images_root p of
        (w, Inl err) \<Rightarrow> (w, Inl err)
      | (w, Inr r) \<Rightarrow>
          (case resolve_images L fs images_root ps of
             (ws, Inl err) \<Rightarrow> (w @ ws, Inl err)
           | (ws, Inr rs) \<Rightarrow>
               (w @ ws,
                Inr (case r of
                       None \<Rightarrow> rs
                     | Some q \<Rightarrow> if q \<noteq> [] then PStr q # rs else rs))))"

text \<open>
  The loop \<^verbatim>\<open>for review in data.reviews: review.images = ...\<close>. It assigns to the
  review objects of the caller, so the function returns the reviews as the loop
  leaves them, also when it stops at an exception: the reviews before the failing
  one are already changed.
\<close>

fun resolve_reviews ::
  "'f lib \<Rightarrow> filesys \<Rightarrow> string \<Rightarrow> 'f Review list
     \<Rightarrow> string list \<times> 'f Review list \<times> error option" where
  "resolve_reviews L fs images_root [] = ([], [], None)"
| "resolve_reviews L fs images_root (review # rest) =
     (case py_iter (images review) of
        Inl err \<Rightarrow> ([], review # rest, Some err)
      | Inr ps \<Rightarrow>
          (case resolve_images L fs images_root ps of
             (w, Inl err) \<Rightarrow> (w, review # rest, Some err)
           | (w, Inr qs) \<Rightarrow>
               (case resolve_reviews L fs images_root rest of
                  (ws, rest', err) \<Rightarrow> (w @ ws, review\<lparr>images := PList qs\<rparr> # rest', err))))"

definition is_image_name :: "string \<Rightarrow> bool" where
  "is_image_name name =
     list_ex (endswith (lower name)) [''.jpg'', ''.jpeg'', ''.png'', ''.gif'', ''.webp'']"

definition gallery_images ::
  "'f lib \<Rightarrow> filesys \<Rightarrow> string \<Rightarrow> 'f pyval \<Rightarrow> error + string list" where
  "gallery_images L fs images_root gdir =
     (if \<not> truthy L gdir then Inr []
      else
        (case gdir of
           PStr g \<Rightarrow>
             (let gallery_abs = path_join images_root g in
              if path_isdir fs gallery_abs then
                Inr (map (\<lambda>name. relpath L (path_join gallery_abs name) images_root)
                       (filter is_image_name (sort (listdir fs gallery_abs))))
              else Inr [])
         | _ \<Rightarrow> Inl TypeError))"

text \<open>
  \<^verbatim>\<open>render_article\<close> returns the caller's \<^verbatim>\<open>ArticleData\<close> as the call leaves it,
  the lines printed, and the HTML or the exception.
\<close>

definition render_article ::
  "'f ArticleGenerator \<Rightarrow> 'f lib \<Rightarrow> filesys \<Rightarrow> 'f ArticleData \<Rightarrow> string
     \<Rightarrow> 'f ArticleData \<times> string list \<times> (error + string)" where
  "render_article G L fs data images_root =
     (case env G ''article.html.j2'' of
        None \<Rightarrow> (data, [], Inl TemplateNotFound)
      | Some template \<Rightarrow>
          (case load_styles G fs of
             Inl err \<Rightarrow> (data, [], Inl err)
           | Inr styles \<Rightarrow>
               (case resolve_image L fs images_root (hero_image (article data)) of
                  (w, Inl err) \<Rightarrow> (data, w, Inl err)
                | (w, Inr hero) \<Rightarrow>
                    (case gallery_images L fs images_root (gallery_dir data) of
                       Inl err \<Rightarrow> (data, w, Inl err)
                     | Inr gallery \<Rightarrow>
                         (case resolve_reviews L fs images_root (reviews data) of
                            (ws, rvs, Some err) \<Rightarrow> (data\<lparr>reviews := rvs\<rparr>, w @ ws, Inl err)
                          | (ws, rvs, None) \<Rightarrow>
                              (data\<lparr>reviews := rvs\<rparr>, w @ ws,
                               template (ArticleContext styles (article data) hero gallery
                                  rvs)))))))"

definition render_index ::
  "'f ArticleGenerator \<Rightarrow> filesys \<Rightarrow> 'f ArticleMeta list \<Rightarrow> error + string" where
  "render_index G fs articles =
     (case env G ''index.html.j2'' of
        None \<Rightarrow> Inl TemplateNotFound
      | Some template \<Rightarrow>
          (case load_styles G fs of
             Inl err \<Rightarrow> Inl err
           | Inr styles \<Rightarrow> template (IndexContext styles articles)))"

section \<open>The manifest store\<close>

text \<open>
  The output directory holds regular files, and every one of them can be opened for
  writing. A file is represented by what \<^verbatim>\<open>json.load\<close> makes of it: the value it
  returns, or \<open>Unparseable\<close> when it raises. \<open>json_value\<close> holds of the values that
  \<^verbatim>\<open>json.dump\<close> writes and \<^verbatim>\<open>json.load\<close> reads back unchanged: no date objects, and
  dictionaries with distinct string keys.
\<close>

datatype 'f stored = Json "'f pyval" | Unparseable

type_synonym 'f outfiles = "string \<rightharpoonup> 'f stored"

fun json_value :: "'f pyval \<Rightarrow> bool" where
  "json_value (PDate t) = False"
| "json_value (PList xs) = (\<forall>x \<in> set xs. json_value x)"
| "json_value (PDict kvs) =
     ((\<forall>kv \<in> set kvs. (case fst kv of PStr s \<Rightarrow> True | _ \<Rightarrow> False) \<and> json_value (snd kv))
      \<and> distinct (map fst kvs))"
| "json_value v = True"

definition json_dump :: "'f lib \<Rightarrow> 'f pyval \<Rightarrow> 'f pyval option" where
  "json_dump L v = (if json_value v then Some v else json_reload L v)"

text \<open>
  \<^verbatim>\<open>with open(path, "w") as f: json.dump(v, f)\<close>. The file is truncated when it is
  opened, so a failing \<^verbatim>\<open>json.dump\<close> leaves a file that does not parse.
\<close>

definition json_dump_to ::
  "'f lib \<Rightarrow> 'f outfiles \<Rightarrow> string \<Rightarrow> 'f pyval \<Rightarrow> 'f outfiles \<times> error option" where
  "json_dump_to L fs path v =
     (case json_dump L v of
        None \<Rightarrow> (fs(path \<mapsto> Unparseable), Some TypeError)
      | Some v' \<Rightarrow> (fs(path \<mapsto> Json v'), None))"

definition manifest_entry :: "'f lib \<Rightarrow> 'f ArticleMeta \<Rightarrow> 'f pyval" where
  "manifest_entry L article_meta =
     PDict [(PStr ''title'', title article_meta),
            (PStr ''slug'', slug article_meta),
            (PStr ''description'', description article_meta),
            (PStr ''date'',
               if meta_date article_meta \<noteq> PNone then PStr (py_str L (meta_date article_meta))
               else PNone),
            (PStr ''tags'', tags article_meta)]"

text \<open>
  The manifest as \<^verbatim>\<open>write_manifest\<close> reads it: the empty list when the file is absent
  or does not parse.
\<close>

definition read_items :: "'f outfiles \<Rightarrow> string \<Rightarrow> 'f pyval" where
  "read_items fs manifest_path =
     (case fs manifest_path of
        None \<Rightarrow> PList []
      | Some Unparseable \<Rightarrow> PList []
      | Some (Json v) \<Rightarrow> v)"

text \<open>
  \<^verbatim>\<open>[i for i in items if i.get("slug") != article_meta.slug]\<close>: \<^verbatim>\<open>i.get\<close> is an
  \<^verbatim>\<open>AttributeError\<close> on an item that is not a dictionary.
\<close>

fun filter_items :: "'f lib \<Rightarrow> 'f pyval \<Rightarrow> 'f pyval list \<Rightarrow> error + 'f pyval list" where
  "filter_items L s [] = Inr []"
| "filter_items L s (i # rest) =
     (case i of
        PDict d \<Rightarrow>
          (case filter_items L s rest of
             Inl err \<Rightarrow> Inl err
           | Inr r \<Rightarrow> Inr (if \<not> py_eq L (kwarg d ''slug'' PNone) s then i # r else r))
      | _ \<Rightarrow> Inl AttributeError)"

definition write_manifest ::
  "'f lib \<Rightarrow> 'f outfiles \<Rightarrow> string \<Rightarrow> 'f ArticleMeta \<Rightarrow> 'f outfiles \<times> error option" where
  "write_manifest L fs out_dir article_meta =
     (let manifest_path = path_join out_dir ''manifest.json'' in
      case py_iter (read_items fs manifest_path) of
        Inl err \<Rightarrow> (fs, Some err)
      | Inr items \<Rightarrow>
          (case filter_items L (slug article_meta) items of
             Inl err \<Rightarrow> (fs, Some err)
           | Inr filtered \<Rightarrow>
               (case json_dump_to L fs manifest_path
                       (PList (filtered @ [manifest_entry L article_meta])) of
                  (fs', Some err) \<Rightarrow> (fs', Some err)
                | (fs', None) \<Rightarrow>
                    json_dump_to L fs'
                      (path_join out_dir (py_str L (slug article_meta) @ ''.meta.json''))
                      (manifest_entry L article_meta))))"

text \<open>
  The first phase of \<^verbatim>\<open>write_index\<close> (the block guarded by
  \<^verbatim>\<open>os.path.exists(manifest_path)\<close>): the loop that appends \<^verbatim>\<open>ArticleMeta(**item)\<close>
  runs inside the \<^verbatim>\<open>try\<close>, so the first exception ends it, with the articles
  appended so far kept and one warning printed. \<open>reconstruct_entries\<close> returns those
  articles and whether an exception ended the loop.
\<close>

fun reconstruct_entries :: "'f pyval list \<Rightarrow> 'f ArticleMeta list \<times> bool" where
  "reconstruct_entries [] = ([], False)"
| "reconstruct_entries (item # rest) =
     (case item of
        PDict d \<Rightarrow>
          (case ArticleMeta_kwargs d of
             Inl err \<Rightarrow> ([], True)
           | Inr m \<Rightarrow> (case reconstruct_entries rest of (ms, failed) \<Rightarrow> (m # ms, failed)))
      | _ \<Rightarrow> ([], True))"

definition warn_manifest :: string where
  "warn_manifest = ''[yellow]Warn:[/yellow] unable to parse manifest.json, will rebuild if possible''"

definition write_index_read_manifest ::
  "'f outfiles \<Rightarrow> string \<Rightarrow> 'f ArticleMeta list \<times> string list" where
  "write_index_read_manifest fs out_dir =
     (case fs (path_join out_dir ''manifest.json'') of
        None \<Rightarrow> ([], [])
      | Some Unparseable \<Rightarrow> ([], [warn_manifest])
      | Some (Json stored) \<Rightarrow>
          (case py_iter stored of
             Inl err \<Rightarrow> ([], [warn_manifest])
           | Inr items \<Rightarrow>
               (case reconstruct_entries items of
                  (articles, failed) \<Rightarrow> (articles, if failed then [warn_manifest] else []))))"

text \<open>
  The second phase of \<^verbatim>\<open>write_index\<close>, run when the first one has left no articles:
  every name of the output directory that ends in \<^verbatim>\<open>.meta.json\<close> is opened and
  parsed (an exception there ends the run), and \<^verbatim>\<open>ArticleMeta(**meta)\<close> is tried
  inside the loop, so that a \<^verbatim>\<open>TypeError\<close> skips that one file. \<open>names\<close> is what
  \<^verbatim>\<open>os.listdir(out_dir)\<close> returns.
\<close>

fun read_sidecars ::
  "'f outfiles \<Rightarrow> string \<Rightarrow> string list \<Rightarrow> error + 'f ArticleMeta list" where
  "read_sidecars fs out_dir [] = Inr []"
| "read_sidecars fs out_dir (name # names) =
     (if endswith name ''.meta.json'' then
        (case fs (path_join out_dir name) of
           None \<Rightarrow> Inl FileNotFoundError
         | Some Unparseable \<Rightarrow> Inl JSONDecodeError
         | Some (Json meta) \<Rightarrow>
             (case read_sidecars fs out_dir names of
                Inl err \<Rightarrow> Inl err
              | Inr ms \<Rightarrow>
                  Inr (case meta of
                         PDict d \<Rightarrow>
                           (case ArticleMeta_kwargs d of Inl err \<Rightarrow> ms | Inr m \<Rightarrow> m # ms)
                       | _ \<Rightarrow> ms)))
      else read_sidecars fs out_dir names)"

text \<open>
  The articles that \<^verbatim>\<open>write_index\<close> hands to \<^verbatim>\<open>render_index\<close>, with the lines printed
  on the way.
\<close>

definition write_index_articles ::
  "'f outfiles \<Rightarrow> string \<Rightarrow> string list \<Rightarrow> string list \<times> (error + 'f ArticleMeta list)" where
  "write_index_articles fs out_dir names =
     (case write_index_read_manifest fs out_dir of
        (articles, printed) \<Rightarrow>
          if articles = [] then (printed, read_sidecars fs out_dir names)
          else (printed, Inr articles))"

section \<open>Declared types\<close>

text \<open>
  The dataclasses declare types that Python does not enforce. These predicates say
  that a value conforms to the declaration: a string, an optional string, a list of
  strings; an article's metadata with every field as declared; a list of image paths
  (non-empty strings), with the paths it holds.
\<close>

definition is_str :: "'f pyval \<Rightarrow> bool" where
  "is_str v = (case v of PStr s \<Rightarrow> True | _ \<Rightarrow> False)"

definition opt_str :: "'f pyval \<Rightarrow> bool" where
  "opt_str v = (v = PNone \<or> is_str v)"

definition str_list :: "'f pyval \<Rightarrow> bool" where
  "str_list v = (case v of PList xs \<Rightarrow> list_all is_str xs | _ \<Rightarrow> False)"

definition ArticleMeta_typed :: "'f ArticleMeta \<Rightarrow> bool" where
  "ArticleMeta_typed m =
     (is_str (title m) \<and> is_str (slug m) \<and> opt_str (description m) \<and> opt_str (meta_date m)
      \<and> str_list (tags m) \<and> opt_str (hero_image m) \<and> opt_str (cover_credit m))"







text \<open>
  The manifest in the specification's words: the entries it holds (none when the file
  is absent or does not parse), the slug of an entry, the metadata an entry
  reconstructs into, and the starting states in which the file is absent, does not
  parse, or holds a JSON array of objects.
\<close>

definition manifest_items :: "'f outfiles \<Rightarrow> string \<Rightarrow> 'f pyval list" where
  "manifest_items fs out_dir =
     (case read_items fs (path_join out_dir ''manifest.json'') of PList xs \<Rightarrow> xs | _ \<Rightarrow> [])"

definition entry_slug :: "'f pyval \<Rightarrow> 'f pyval" where
  "entry_slug i = (case i of PDict d \<Rightarrow> kwarg d ''slug'' PNone | _ \<Rightarrow> PNone)"

definition entry_meta :: "'f pyval \<Rightarrow> 'f ArticleMeta option" where
  "entry_meta i =
     (case i of
        PDict d \<Rightarrow> (case ArticleMeta_kwargs d of Inl err \<Rightarrow> None | Inr m \<Rightarrow> Some m)
      | _ \<Rightarrow> None)"

definition is_dict :: "'f pyval \<Rightarrow> bool" where
  "is_dict v = (case v of PDict d \<Rightarrow> True | _ \<Rightarrow> False)"

definition manifest_ok :: "'f outfiles \<Rightarrow> string \<Rightarrow> bool" where
  "manifest_ok fs out_dir =
     (case fs (path_join out_dir ''manifest.json'') of
        None \<Rightarrow> True
      | Some Unparseable \<Rightarrow> True
      | Some (Json v) \<Rightarrow>
          (case v of PList xs \<Rightarrow> list_all (\<lambda>i. is_dict i \<and> json_value i) xs | _ \<Rightarrow> False))"

text \<open>
  A manifest all of whose entries reconstruct; the manifests that \<^verbatim>\<open>write_manifest\<close>
  builds from nothing are of this kind.
\<close>

definition manifest_reconstructs :: "'f outfiles \<Rightarrow> string \<Rightarrow> bool" where
  "manifest_reconstructs fs out_dir =
     (manifest_ok fs out_dir
      \<and> list_all (\<lambda>i. entry_meta i \<noteq> None) (manifest_items fs out_dir))"

section \<open>Concrete inputs\<close>

text \<open>
  A library instance for evaluating the functions on concrete inputs. Its parsers know
  the documents below and no other, its \<^verbatim>\<open>float()\<close> converts numbers and the text \<^verbatim>\<open>4.5\<close> and
  rejects every other string, and its \<^verbatim>\<open>relpath\<close> strips the start directory from a
  path below it and returns a dot for the start directory itself.
\<close>

definition sample_json :: string where
  \<open>sample_json = ''{"article": {"title": "T", "slug": "s"}}''\<close>

definition sample_json_no_article :: string where
  \<open>sample_json_no_article = ''{"reviews": []}''\<close>

definition sample_json_no_slug :: string where
  \<open>sample_json_no_slug = ''{"article": {"title": "T"}}''\<close>

definition sample_json_list :: string where
  "sample_json_list = ''[]''"

definition sample_yaml :: string where
  \<open>sample_yaml =
     ''{article: {title: T, slug: s}, reviews: [{author: ann, rating: great}, {author: bob, rating: "4.5"}]}''\<close>

definition sample_lib :: "real lib" where
  "sample_lib =
     \<lparr>yaml_safe_load = (\<lambda>t. if t = sample_yaml then
          Some (PDict [(PStr ''article'',
                  PDict [(PStr ''title'', PStr ''T''), (PStr ''slug'', PStr ''s'')]),
                (PStr ''reviews'',
                  PList [PDict [(PStr ''author'', PStr ''ann''), (PStr ''rating'', PStr ''great'')],
                         PDict [(PStr ''author'', PStr ''bob''), (PStr ''rating'', PStr ''4.5'')]])])
          else None),
      json_load = (\<lambda>t.
          if t = sample_json then
            Some (PDict [(PStr ''article'',
                    PDict [(PStr ''title'', PStr ''T''), (PStr ''slug'', PStr ''s'')])])
          else if t = sample_json_no_article then Some (PDict [(PStr ''reviews'', PList [])])
          else if t = sample_json_no_slug then
            Some (PDict [(PStr ''article'', PDict [(PStr ''title'', PStr ''T'')])])
          else if t = sample_json_list then Some (PList [])
          else None),
      py_float = (\<lambda>v. case v of
          PInt i \<Rightarrow> Some (of_int i)
        | PFloat x \<Rightarrow> Some x
        | PBool b \<Rightarrow> Some (if b then 1 else 0)
        | PStr s \<Rightarrow> if s = ''4.5'' then Some 4.5 else None
        | _ \<Rightarrow> None),
      str_other = (\<lambda>v. ''?''),
      eq_other = (\<lambda>a b. a = b),
      float_truthy = (\<lambda>x. x \<noteq> 0),
      relpath = (\<lambda>p start.
          if take (length start + 1) p = start @ ''/'' \<and> drop (length start + 1) p \<noteq> []
          then drop (length start + 1) p
          else if p = [] \<or> p = start \<or> p = start @ ''/'' then ''.''
          else p),
      json_reload = (\<lambda>v. None)\<rparr>"

definition sample_files :: "string \<rightharpoonup> string" where
  "sample_files =
     [''notes.txt'' \<mapsto> sample_json, ''reviews.yaml'' \<mapsto> sample_yaml,
      ''no_article.json'' \<mapsto> sample_json_no_article, ''no_slug.json'' \<mapsto> sample_json_no_slug,
      ''list.json'' \<mapsto> sample_json_list]"

definition sample_fs :: filesys where
  "sample_fs =
     [''/img'' \<mapsto> Dir [''gallery'', ''a.jpg''],
      ''/img/a.jpg'' \<mapsto> File ''jpeg'',
      ''/img/gallery'' \<mapsto> Dir [''b.png'', ''a.jpg'', ''note.txt''],
      ''/img/gallery/b.png'' \<mapsto> File ''png'',
      ''/img/gallery/a.jpg'' \<mapsto> File ''jpeg'',
      ''/img/gallery/note.txt'' \<mapsto> File ''note'',
      ''/assets/styles.css'' \<mapsto> File ''body {}'']"

definition sample_template :: "real template_context \<Rightarrow> error + string" where
  "sample_template ctx =
     (case ctx of
        ArticleContext styles a hero gallery rvs \<Rightarrow>
          Inr (''<style>'' @ styles @ ''</style>'' @ concat (map (\<lambda>g. ''<img src='' @ g @ ''>'') gallery))
      | IndexContext styles articles \<Rightarrow> Inl TemplateError)"

definition sample_generator :: "real ArticleGenerator" where
  "sample_generator =
     \<lparr>env = (\<lambda>name. if name = ''article.html.j2'' then Some sample_template else None),
      assets_dir = ''/assets''\<rparr>"

definition sample_data :: "real ArticleData" where
  "sample_data =
     \<lparr>article = \<lparr>title = PStr ''T'', slug = PStr ''s'', description = PNone, meta_date = PNone,
                  tags = PList [], hero_image = PStr ''hero.jpg'', cover_credit = PNone\<rparr>,
      reviews = [\<lparr>author = PStr ''ann'', rating = PNone, date = PNone, content = PStr [],
                  pros = PList [], cons = PList [],
                  images = PList [PStr ''a.jpg'', PStr ''missing.png'']\<rparr>],
      gallery_dir = PStr ''gallery''\<rparr>"



text \<open>
  Two manifests as a user may have left them:
  \<^verbatim>\<open>[{"title": "A", "slug": "a"}, {"slug": "x"}, {"title": "B", "slug": "b"}]\<close>, whose
  second entry has no title (beside it the sidecar file of the third entry), and
  \<^verbatim>\<open>[1]\<close>.
\<close>

definition sample_out_bad_entry :: "real outfiles" where
  "sample_out_bad_entry =
     [''/out/manifest.json'' \<mapsto>
        Json (PList [PDict [(PStr ''title'', PStr ''A''), (PStr ''slug'', PStr ''a'')],
                     PDict [(PStr ''slug'', PStr ''x'')],
                     PDict [(PStr ''title'', PStr ''B''), (PStr ''slug'', PStr ''b'')]]),
      ''/out/b.meta.json'' \<mapsto>
        Json (PDict [(PStr ''title'', PStr ''B''), (PStr ''slug'', PStr ''b'')])]"



section \<open>Facts about dictionaries\<close>

lemma dict_get_dict_set:
  "dict_get (dict_set d k v) k' = (if k' = k then Some v else dict_get d k')"
  by (simp add: dict_get_def dict_set_def update_conv')

lemma keys_dict_set: "dict_get d k \<noteq> None \<Longrightarrow> map fst (dict_set d k v) = map fst d"
  by (auto simp add: dict_get_def dict_set_def update_keys map_of_eq_None_iff)

section \<open>The loader: dispatch on the extension\<close>

text \<open>
  C1 (as the code has it). \<^verbatim>\<open>load_article_data\<close> has no error for an unsupported
  extension: a path that does not end in \<^verbatim>\<open>.yaml\<close> or \<^verbatim>\<open>.yml\<close> (compared in lower
  case) is parsed as JSON whatever its extension is, so the call fails with a JSON
  parse error when the text is not JSON and otherwise continues with the parsed
  tree.
\<close>

theorem load_article_data_other_extension_is_json:
  assumes "\<not> is_yaml_path file_path" and "files file_path = Some src"
  shows "load_article_data L files file_path =
           (case json_load L src of
              None \<Rightarrow> Inl JSONDecodeError
            | Some raw \<Rightarrow> article_data_of_raw L raw)"
  using assms by (simp add: load_article_data_def parse_input_def split: option.splits)

theorem load_article_data_other_extension_is_json_witness:
  "\<not> is_yaml_path ''notes.txt'' \<and> sample_files ''notes.txt'' = Some sample_json
   \<and> load_article_data sample_lib sample_files ''notes.txt'' =
       article_data_of_raw sample_lib
         (PDict [(PStr ''article'',
            PDict [(PStr ''title'', PStr ''T''), (PStr ''slug'', PStr ''s'')])])"
proof -
  have a: "\<not> is_yaml_path ''notes.txt''"
    by (simp add: is_yaml_path_def endswith_def lower_def lower_char_def)
  have b: "sample_files ''notes.txt'' = Some sample_json"
    by (simp add: sample_files_def)
  show ?thesis
    using a b load_article_data_other_extension_is_json
      [where file_path = "''notes.txt''" and files = sample_files and src = sample_json
         and L = sample_lib]
    by (simp add: sample_lib_def)
qed

text \<open>
  C1 as the specification states it fails: a file named \<^verbatim>\<open>notes.txt\<close>, whose
  extension is none of \<^verbatim>\<open>.yaml\<close>, \<^verbatim>\<open>.yml\<close>, \<^verbatim>\<open>.json\<close>, and whose text is a JSON
  document with a complete article, is loaded without any error.
\<close>

theorem load_article_data_unknown_extension_counterexample:
  "\<not> endswith (lower ''notes.txt'') ''.yaml'' \<and> \<not> endswith (lower ''notes.txt'') ''.yml''
   \<and> \<not> endswith (lower ''notes.txt'') ''.json''
   \<and> load_article_data sample_lib sample_files ''notes.txt'' =
       Inr \<lparr>article = \<lparr>title = PStr ''T'', slug = PStr ''s'', description = PNone,
                        meta_date = PNone, tags = PList [], hero_image = PNone,
                        cover_credit = PNone\<rparr>,
            reviews = [], gallery_dir = PNone\<rparr>"
  by (simp add: load_article_data_def parse_input_def is_yaml_path_def endswith_def lower_def
      lower_char_def sample_files_def sample_lib_def article_data_of_raw_def dict_get_def
      dict_set_def py_dict_def norm_date_def norm_str_list_def ArticleMeta_kwargs_def
      kwargs_ok_def kwarg_def py_iter_def)

section \<open>The loader: required fields\<close>

lemma dict_get_norm_date:
  "k \<noteq> ''date'' \<Longrightarrow> dict_get (norm_date L d) k = dict_get d k"
  by (simp add: norm_date_def dict_get_dict_set split: option.splits)

lemma dict_get_norm_str_list:
  "norm_str_list L key d = Inr d' \<Longrightarrow> k \<noteq> key \<Longrightarrow> dict_get d' k = dict_get d k"
  by (auto simp add: norm_str_list_def dict_get_dict_set split: option.splits if_splits sum.splits)

lemma norm_str_list_error: "norm_str_list L key d = Inl err \<Longrightarrow> err = TypeError"
  by (auto simp add: norm_str_list_def py_iter_def split: option.splits if_splits sum.splits pyval.splits)

lemma ArticleMeta_kwargs_missing:
  "dict_get d ''title'' = None \<or> dict_get d ''slug'' = None \<Longrightarrow> ArticleMeta_kwargs d = Inl TypeError"
  by (auto simp add: ArticleMeta_kwargs_def kwargs_ok_def)

lemma article_data_of_raw_missing_required:
  assumes "dict_get kvs ''article'' = Some a" and "py_dict a = Inr art_raw"
    and "dict_get art_raw ''title'' = None \<or> dict_get art_raw ''slug'' = None"
  shows "article_data_of_raw L (PDict kvs) = Inl TypeError"
proof (cases "norm_str_list L ''tags'' (norm_date L art_raw)")
  case (Inl err)
  then have "err = TypeError" by (rule norm_str_list_error)
  with Inl assms show ?thesis
    by (simp add: article_data_of_raw_def)
next
  case (Inr d')
  have "dict_get d' ''title'' = dict_get art_raw ''title''"
    using dict_get_norm_str_list [OF Inr, of "''title''"] by (simp add: dict_get_norm_date)
  moreover have "dict_get d' ''slug'' = dict_get art_raw ''slug''"
    using dict_get_norm_str_list [OF Inr, of "''slug''"] by (simp add: dict_get_norm_date)
  ultimately have "ArticleMeta_kwargs d' = Inl TypeError"
    using assms(3) by (intro ArticleMeta_kwargs_missing) auto
  with Inr assms show ?thesis
    by (simp add: article_data_of_raw_def)
qed

text \<open>
  C3. Once the file has been parsed, \<^verbatim>\<open>load_article_data\<close> fails when the tree has
  no key \<^verbatim>\<open>article\<close> (Python's \<^verbatim>\<open>KeyError\<close> for that key on a dictionary, a
  \<^verbatim>\<open>TypeError\<close> on a tree that is not a dictionary), and it fails when the article
  lacks \<^verbatim>\<open>title\<close> or \<^verbatim>\<open>slug\<close> (the \<^verbatim>\<open>TypeError\<close> of the dataclass constructor for a
  missing required argument). These exceptions are the code's missing-field errors;
  it never returns article data in any of these cases.
\<close>

theorem load_article_data_missing_field:
  assumes "files file_path = Some src" and "parse_input L file_path src = Inr raw"
  shows "(\<not> is_dict raw \<longrightarrow> load_article_data L files file_path = Inl TypeError)
       \<and> (\<forall>kvs. raw = PDict kvs \<and> dict_get kvs ''article'' = None \<longrightarrow>
            load_article_data L files file_path = Inl (KeyError ''article''))
       \<and> (\<forall>kvs a art_raw.
            raw = PDict kvs \<and> dict_get kvs ''article'' = Some a \<and> py_dict a = Inr art_raw
            \<and> (dict_get art_raw ''title'' = None \<or> dict_get art_raw ''slug'' = None) \<longrightarrow>
            load_article_data L files file_path = Inl TypeError)"
proof (intro conjI allI impI)
  assume "\<not> is_dict raw"
  with assms show "load_article_data L files file_path = Inl TypeError"
    by (cases raw) (simp_all add: load_article_data_def article_data_of_raw_def is_dict_def)
next
  fix kvs
  assume "raw = PDict kvs \<and> dict_get kvs ''article'' = None"
  with assms show "load_article_data L files file_path = Inl (KeyError ''article'')"
    by (simp add: load_article_data_def article_data_of_raw_def)
next
  fix kvs a art_raw
  assume "raw = PDict kvs \<and> dict_get kvs ''article'' = Some a \<and> py_dict a = Inr art_raw
            \<and> (dict_get art_raw ''title'' = None \<or> dict_get art_raw ''slug'' = None)"
  with assms show "load_article_data L files file_path = Inl TypeError"
    by (simp add: load_article_data_def article_data_of_raw_missing_required)
qed

theorem load_article_data_missing_field_witness:
  "sample_files ''list.json'' = Some sample_json_list
   \<and> parse_input sample_lib ''list.json'' sample_json_list = Inr (PList [])
   \<and> \<not> is_dict (PList [] :: real pyval)
   \<and> load_article_data sample_lib sample_files ''list.json'' = Inl TypeError
   \<and> sample_files ''no_article.json'' = Some sample_json_no_article
   \<and> parse_input sample_lib ''no_article.json'' sample_json_no_article =
       Inr (PDict [(PStr ''reviews'', PList [])])
   \<and> dict_get [(PStr ''reviews'', PList [])] ''article'' = (None :: real pyval option)
   \<and> load_article_data sample_lib sample_files ''no_article.json'' = Inl (KeyError ''article'')
   \<and> sample_files ''no_slug.json'' = Some sample_json_no_slug
   \<and> parse_input sample_lib ''no_slug.json'' sample_json_no_slug =
       Inr (PDict [(PStr ''article'', PDict [(PStr ''title'', PStr ''T'')])])
   \<and> dict_get [(PStr ''article'', PDict [(PStr ''title'', PStr ''T'')])] ''article'' =
       Some (PDict [(PStr ''title'', PStr ''T'' :: real pyval)])
   \<and> py_dict (PDict [(PStr ''title'', PStr ''T'' :: real pyval)]) = Inr [(PStr ''title'', PStr ''T'')]
   \<and> dict_get [(PStr ''title'', PStr ''T'' :: real pyval)] ''slug'' = None
   \<and> load_article_data sample_lib sample_files ''no_slug.json'' = Inl TypeError"
proof -
  have texts: "sample_json_no_article \<noteq> sample_json" "sample_json_no_slug \<noteq> sample_json"
    "sample_json_no_slug \<noteq> sample_json_no_article" "sample_json_list \<noteq> sample_json"
    "sample_json_list \<noteq> sample_json_no_article" "sample_json_list \<noteq> sample_json_no_slug"
    by (simp_all add: sample_json_def sample_json_no_article_def sample_json_no_slug_def
        sample_json_list_def)
  have f0: "sample_files ''list.json'' = Some sample_json_list"
    and f1: "sample_files ''no_article.json'' = Some sample_json_no_article"
    and f2: "sample_files ''no_slug.json'' = Some sample_json_no_slug"
    by (simp_all add: sample_files_def)
  have p0: "parse_input sample_lib ''list.json'' sample_json_list = Inr (PList [])"
    using texts
    by (simp add: parse_input_def is_yaml_path_def endswith_def lower_def lower_char_def
        sample_lib_def)
  have p1: "parse_input sample_lib ''no_article.json'' sample_json_no_article =
       Inr (PDict [(PStr ''reviews'', PList [])])"
    using texts
    by (simp add: parse_input_def is_yaml_path_def endswith_def lower_def lower_char_def
        sample_lib_def)
  have p2: "parse_input sample_lib ''no_slug.json'' sample_json_no_slug =
       Inr (PDict [(PStr ''article'', PDict [(PStr ''title'', PStr ''T'')])])"
    using texts
    by (simp add: parse_input_def is_yaml_path_def endswith_def lower_def lower_char_def
        sample_lib_def)
  show ?thesis
    using f0 f1 f2 p0 p1 p2
      load_article_data_missing_field
        [where files = sample_files and file_path = "''list.json''"
           and src = sample_json_list and L = sample_lib and raw = "PList []"]
      load_article_data_missing_field
        [where files = sample_files and file_path = "''no_article.json''"
           and src = sample_json_no_article and L = sample_lib
           and raw = "PDict [(PStr ''reviews'', PList [])]"]
      load_article_data_missing_field
        [where files = sample_files and file_path = "''no_slug.json''"
           and src = sample_json_no_slug and L = sample_lib
           and raw = "PDict [(PStr ''article'', PDict [(PStr ''title'', PStr ''T'')])]"]
    by (simp add: dict_get_def py_dict_def is_dict_def)
qed

section \<open>The loader: lenient ratings\<close>









text \<open>
  The whole loader on a YAML file with the ratings \<^verbatim>\<open>great\<close> and \<^verbatim>\<open>"4.5"\<close>.
\<close>

lemma load_article_data_sample_reviews:
  "load_article_data sample_lib sample_files ''reviews.yaml'' =
     Inr \<lparr>article = \<lparr>title = PStr ''T'', slug = PStr ''s'', description = PNone,
                      meta_date = PNone, tags = PList [], hero_image = PNone,
                      cover_credit = PNone\<rparr>,
          reviews =
            [\<lparr>author = PStr ''ann'', rating = PNone, date = PNone, content = PStr [],
               pros = PList [], cons = PList [], images = PList []\<rparr>,
             \<lparr>author = PStr ''bob'', rating = PFloat 4.5, date = PNone, content = PStr [],
               pros = PList [], cons = PList [], images = PList []\<rparr>],
          gallery_dir = PNone\<rparr>"
proof -
  have e: "py_float sample_lib (PStr ''great'') = None"
    and f: "py_float sample_lib (PStr ''4.5'') = Some 4.5"
    by (simp_all add: sample_lib_def)
  have y: "parse_input sample_lib ''reviews.yaml'' sample_yaml =
      Inr (PDict [(PStr ''article'',
                  PDict [(PStr ''title'', PStr ''T''), (PStr ''slug'', PStr ''s'')]),
                (PStr ''reviews'',
                  PList [PDict [(PStr ''author'', PStr ''ann''), (PStr ''rating'', PStr ''great'')],
                         PDict [(PStr ''author'', PStr ''bob''), (PStr ''rating'', PStr ''4.5'')]])])"
    by (simp add: parse_input_def is_yaml_path_def endswith_def lower_def lower_char_def
        sample_lib_def)
  show ?thesis
    using e f
    by (simp add: load_article_data_def y sample_files_def article_data_of_raw_def
        load_review_def py_dict_def dict_set_def dict_get_def norm_date_def py_iter_def
        norm_rating_def norm_str_list_def Review_kwargs_def ArticleMeta_kwargs_def
        kwargs_ok_def kwarg_def)
qed

section \<open>The renderer: image resolution\<close>

lemma resolve_image_str:
  "resolve_image L fs images_root (PStr p) =
     (if p = [] then ([], Inr None)
      else if path_exists fs (path_join images_root p)
        then ([], Inr (Some (relpath L (path_join images_root p) images_root)))
      else ([warn_missing (path_join images_root p)], Inr None))"
  by (simp add: resolve_image_def truthy_def Let_def)












section \<open>The renderer: gallery enumeration\<close>


lemma render_article_html_context:
  assumes "render_article G L fs data images_root = (data', w, Inr html)"
  shows "\<exists>template styles hero gallery rvs.
           env G ''article.html.j2'' = Some template
         \<and> gallery_images L fs images_root (gallery_dir data) = Inr gallery
         \<and> resolve_reviews L fs images_root (reviews data) = (drop (length w - length (fst (resolve_reviews L fs images_root (reviews data)))) w, rvs, None)
         \<and> data' = data\<lparr>reviews := rvs\<rparr>
         \<and> template (ArticleContext styles (article data) hero gallery rvs) = Inr html"
  using assms
  by (auto simp add: render_article_def split: option.splits sum.splits prod.splits)




section \<open>The renderer: what it changes in its argument\<close>

lemma resolve_reviews_frame:
  "resolve_reviews L fs images_root rs = (w, rs', e) \<Longrightarrow>
   length rs' = length rs
   \<and> (\<forall>i < length rs. (rs' ! i)\<lparr>images := images (rs ! i)\<rparr> = rs ! i)"
proof (induction rs arbitrary: w rs' e)
  case Nil
  then show ?case by simp
next
  case (Cons r rs)
  show ?case
  proof (cases "py_iter (images r)")
    case (Inl err)
    with Cons.prems show ?thesis by auto
  next
    case (Inr ps)
    show ?thesis
    proof (cases "resolve_images L fs images_root ps")
      case (Pair w1 res)
      show ?thesis
      proof (cases res)
        case (Inl err)
        with Cons.prems Inr Pair show ?thesis by auto
      next
        case qs: (Inr qs)
        obtain ws rest' err where rest: "resolve_reviews L fs images_root rs = (ws, rest', err)"
          by (cases "resolve_reviews L fs images_root rs") auto
        from Cons.IH [OF rest] have ih: "length rest' = length rs"
          "\<forall>i < length rs. (rest' ! i)\<lparr>images := images (rs ! i)\<rparr> = rs ! i"
          by simp_all
        from Cons.prems Inr Pair qs rest have rs': "rs' = r\<lparr>images := PList qs\<rparr> # rest'"
          by auto
        show ?thesis
          using ih by (auto simp add: rs' nth_Cons split: nat.splits)
      qed
    qed
  qed
qed

lemma resolve_reviews_replaced:
  "resolve_reviews L fs images_root rs = (w, rs', None) \<Longrightarrow>
   \<forall>i < length rs. \<exists>ps ws qs.
      py_iter (images (rs ! i)) = Inr ps
    \<and> resolve_images L fs images_root ps = (ws, Inr qs)
    \<and> images (rs' ! i) = PList qs"
proof (induction rs arbitrary: w rs')
  case Nil
  then show ?case by simp
next
  case (Cons r rs)
  from Cons.prems obtain ps w1 qs ws rest' where
    it: "py_iter (images r) = Inr ps" and
    res: "resolve_images L fs images_root ps = (w1, Inr qs)" and
    rest: "resolve_reviews L fs images_root rs = (ws, rest', None)" and
    rs': "rs' = r\<lparr>images := PList qs\<rparr> # rest'"
    by (auto split: sum.splits prod.splits)
  from Cons.IH [OF rest] it res show ?case
    by (auto simp add: rs' nth_Cons split: nat.splits)
qed

lemma render_article_state:
  "render_article G L fs data images_root = (data', w, res) \<Longrightarrow>
   data' = data \<or> (\<exists>ws e. resolve_reviews L fs images_root (reviews data) = (ws, reviews data', e)
                  \<and> data' = data\<lparr>reviews := reviews data'\<rparr>)"
  by (auto simp add: render_article_def split: option.splits sum.splits prod.splits)

text \<open>
  C10. \<^verbatim>\<open>render_article\<close> changes the \<^verbatim>\<open>ArticleData\<close> it is given, and only in the
  \<^verbatim>\<open>images\<close> field of its reviews: whatever the outcome, the article metadata, the
  gallery directory, the number of reviews and every other field of every review are
  as before; and when the call returns the HTML, the \<^verbatim>\<open>images\<close> field of every review
  holds the list that the resolution made from the declared one.
\<close>

theorem render_article_mutates_review_images_only:
  assumes "render_article G L fs data images_root = (data', w, res)"
  shows "article data' = article data \<and> gallery_dir data' = gallery_dir data
       \<and> length (reviews data') = length (reviews data)
       \<and> (\<forall>i < length (reviews data).
            (reviews data' ! i)\<lparr>images := images (reviews data ! i)\<rparr> = reviews data ! i)
       \<and> ((\<exists>html. res = Inr html) \<longrightarrow>
            (\<forall>i < length (reviews data). \<exists>ps ws qs.
               py_iter (images (reviews data ! i)) = Inr ps
             \<and> resolve_images L fs images_root ps = (ws, Inr qs)
             \<and> images (reviews data' ! i) = PList qs))"
proof -
  have frame: "article data' = article data \<and> gallery_dir data' = gallery_dir data
       \<and> length (reviews data') = length (reviews data)
       \<and> (\<forall>i < length (reviews data).
            (reviews data' ! i)\<lparr>images := images (reviews data ! i)\<rparr> = reviews data ! i)"
    using render_article_state [OF assms]
  proof
    assume "data' = data"
    then show ?thesis by simp
  next
    assume "\<exists>ws e. resolve_reviews L fs images_root (reviews data) = (ws, reviews data', e)
                  \<and> data' = data\<lparr>reviews := reviews data'\<rparr>"
    then obtain ws e where
      rr: "resolve_reviews L fs images_root (reviews data) = (ws, reviews data', e)"
      and d: "data' = data\<lparr>reviews := reviews data'\<rparr>"
      by blast
    have "article data' = article data" "gallery_dir data' = gallery_dir data"
      by (subst d, simp)+
    with resolve_reviews_frame [OF rr] show ?thesis by simp
  qed
  have repl: "\<forall>i < length (reviews data). \<exists>ps ws qs.
               py_iter (images (reviews data ! i)) = Inr ps
             \<and> resolve_images L fs images_root ps = (ws, Inr qs)
             \<and> images (reviews data' ! i) = PList qs"
    if "res = Inr html" for html
  proof -
    from assms that render_article_html_context [of G L fs data images_root data' w html]
    obtain rvs ws where rr: "resolve_reviews L fs images_root (reviews data) = (ws, rvs, None)"
      and d: "data' = data\<lparr>reviews := rvs\<rparr>"
      by auto
    from d have "reviews data' = rvs" by simp
    with resolve_reviews_replaced [OF rr] show ?thesis by simp
  qed
  from frame repl show ?thesis by blast
qed


lemma sample_sorted_names: "sort [''b.png'', ''a.jpg'', ''note.txt''] = [''a.jpg'', ''b.png'', ''note.txt'']"
  by code_simp

lemma sample_gallery_images:
  "gallery_images sample_lib sample_fs ''/img'' (PStr ''gallery'') =
     Inr [''gallery/a.jpg'', ''gallery/b.png'']"
proof -
  have "gallery_images sample_lib sample_fs ''/img'' (PStr ''gallery'') =
     Inr (map (\<lambda>name. relpath sample_lib (path_join ''/img/gallery'' name) ''/img'')
            (filter is_image_name (sort [''b.png'', ''a.jpg'', ''note.txt''])))"
    by (simp add: gallery_images_def truthy_def path_join_def path_isdir_def listdir_def
        sample_fs_def Let_def del: sort_key_simps)
  also have "\<dots> = Inr [''gallery/a.jpg'', ''gallery/b.png'']"
    unfolding sample_sorted_names
    by (simp add: is_image_name_def endswith_def lower_def lower_char_def path_join_def
        sample_lib_def)
  finally show ?thesis .
qed

lemma sample_render_article:
  "render_article sample_generator sample_lib sample_fs sample_data ''/img'' =
     (sample_data\<lparr>reviews :=
        [\<lparr>author = PStr ''ann'', rating = PNone, date = PNone, content = PStr [],
           pros = PList [], cons = PList [], images = PList [PStr ''a.jpg'']\<rparr>]\<rparr>,
      [warn_missing ''/img/hero.jpg'', warn_missing ''/img/missing.png''],
      Inr ''<style>body {}</style><img src=gallery/a.jpg><img src=gallery/b.png>'')"
proof -
  have st: "load_styles sample_generator sample_fs = Inr ''body {}''"
    by (simp add: load_styles_def sample_generator_def sample_fs_def path_join_def)
  have hero: "resolve_image sample_lib sample_fs ''/img'' (PStr ''hero.jpg'') =
      ([warn_missing ''/img/hero.jpg''], Inr None)"
    by (simp add: resolve_image_str path_exists_def path_join_def sample_fs_def)
  have rv: "resolve_reviews sample_lib sample_fs ''/img'' (reviews sample_data) =
      ([warn_missing ''/img/missing.png''],
       [\<lparr>author = PStr ''ann'', rating = PNone, date = PNone, content = PStr [],
           pros = PList [], cons = PList [], images = PList [PStr ''a.jpg'']\<rparr>], None)"
    by (simp add: sample_data_def py_iter_def resolve_image_str path_exists_def path_join_def
        sample_fs_def sample_lib_def)
  have gd: "gallery_dir sample_data = PStr ''gallery''"
    and hi: "hero_image (article sample_data) = PStr ''hero.jpg''"
    by (simp_all add: sample_data_def)
  have en: "env sample_generator ''article.html.j2'' = Some sample_template"
    by (simp add: sample_generator_def)
  show ?thesis
    by (simp add: render_article_def en st hi hero gd sample_gallery_images rv
        sample_template_def)
qed

theorem render_article_mutates_review_images_only_witness:
  "render_article sample_generator sample_lib sample_fs sample_data ''/img'' =
     (sample_data\<lparr>reviews :=
        [\<lparr>author = PStr ''ann'', rating = PNone, date = PNone, content = PStr [],
           pros = PList [], cons = PList [], images = PList [PStr ''a.jpg'']\<rparr>]\<rparr>,
      [warn_missing ''/img/hero.jpg'', warn_missing ''/img/missing.png''],
      Inr ''<style>body {}</style><img src=gallery/a.jpg><img src=gallery/b.png>'')
   \<and> images (reviews sample_data ! 0) = PList [PStr ''a.jpg'', PStr ''missing.png'']
   \<and> images (reviews (sample_data\<lparr>reviews :=
        [\<lparr>author = PStr ''ann'', rating = PNone, date = PNone, content = PStr [],
           pros = PList [], cons = PList [], images = PList [PStr ''a.jpg'']\<rparr>]\<rparr>) ! 0) =
       PList [PStr ''a.jpg'' :: real pyval]
   \<and> py_iter (images (reviews sample_data ! 0)) = Inr [PStr ''a.jpg'', PStr ''missing.png'']
   \<and> resolve_images sample_lib sample_fs ''/img'' [PStr ''a.jpg'', PStr ''missing.png''] =
       ([warn_missing ''/img/missing.png''], Inr [PStr ''a.jpg''])"
proof -
  have ri: "resolve_images sample_lib sample_fs ''/img'' [PStr ''a.jpg'', PStr ''missing.png''] =
       ([warn_missing ''/img/missing.png''], Inr [PStr ''a.jpg''])"
    by (simp add: resolve_image_str path_exists_def path_join_def sample_fs_def sample_lib_def)
  have before: "images (reviews sample_data ! 0) = PList [PStr ''a.jpg'', PStr ''missing.png'']"
    by (simp add: sample_data_def)
  have after: "images (reviews (sample_data\<lparr>reviews :=
        [\<lparr>author = PStr ''ann'', rating = PNone, date = PNone, content = PStr [],
           pros = PList [], cons = PList [], images = PList [PStr ''a.jpg'']\<rparr>]\<rparr>) ! 0) =
       PList [PStr ''a.jpg'' :: real pyval]"
    by simp
  have it: "py_iter (images (reviews sample_data ! 0)) = Inr [PStr ''a.jpg'', PStr ''missing.png'']"
    by (simp add: before py_iter_def)
  show ?thesis
    using render_article_mutates_review_images_only [OF sample_render_article]
      sample_render_article before after it ri
    by blast
qed

section \<open>The manifest store: one write\<close>

lemma path_join_suffix: "\<exists>pre. path_join a b = pre @ b"
proof -
  have "path_join a b = [] @ b \<or> path_join a b = a @ b \<or> path_join a b = (a @ ''/'') @ b"
    by (simp add: path_join_def)
  then show ?thesis by blast
qed

lemma sidecar_not_manifest:
  "path_join out_dir (s @ ''.meta.json'') \<noteq> path_join out_dir ''manifest.json''"
proof
  assume eq: "path_join out_dir (s @ ''.meta.json'') = path_join out_dir ''manifest.json''"
  obtain x where x: "path_join out_dir (s @ ''.meta.json'') = x @ s @ ''.meta.json''"
    using path_join_suffix by blast
  obtain y where y: "path_join out_dir ''manifest.json'' = y @ ''manifest.json''"
    using path_join_suffix by blast
  from eq x y have "(x @ s) @ ''.meta.json'' = (y @ ''man'') @ ''ifest.json''"
    by simp
  then have "''.meta.json'' = ''ifest.json''"
    by (subst (asm) append_eq_append_conv) simp_all
  then show False by simp
qed

lemma py_eq_str: "py_eq L a (PStr s) \<longleftrightarrow> a = PStr s"
  by (cases a) (auto simp add: py_eq_def)

lemma py_str_str: "py_str L (PStr s) = s"
  by (simp add: py_str_def)

lemma is_str_E: "is_str v \<Longrightarrow> \<exists>s. v = PStr s"
  by (cases v) (simp_all add: is_str_def)

lemma json_value_opt_str: "opt_str v \<Longrightarrow> json_value v"
  by (cases v) (simp_all add: opt_str_def is_str_def)

lemma json_value_str_list: "str_list v \<Longrightarrow> json_value v"
  by (cases v) (auto simp add: str_list_def list_all_iff dest!: is_str_E)

lemma manifest_entry_typed:
  assumes "ArticleMeta_typed m"
  shows "manifest_entry L m =
           PDict [(PStr ''title'', title m), (PStr ''slug'', slug m),
                  (PStr ''description'', description m), (PStr ''date'', meta_date m),
                  (PStr ''tags'', tags m)]"
    and "json_value (manifest_entry L m)"
    and "is_dict (manifest_entry L m)"
    and "entry_slug (manifest_entry L m) = slug m"
proof -
  from assms have d: "opt_str (meta_date m)" by (simp add: ArticleMeta_typed_def)
  then have "(if meta_date m \<noteq> PNone then PStr (py_str L (meta_date m)) else PNone) = meta_date m"
    by (auto simp add: opt_str_def py_str_str dest!: is_str_E)
  then show e: "manifest_entry L m =
           PDict [(PStr ''title'', title m), (PStr ''slug'', slug m),
                  (PStr ''description'', description m), (PStr ''date'', meta_date m),
                  (PStr ''tags'', tags m)]"
    by (simp add: manifest_entry_def)
  from assms show "json_value (manifest_entry L m)"
    by (simp add: e ArticleMeta_typed_def json_value_opt_str json_value_str_list opt_str_def)
  show "is_dict (manifest_entry L m)"
    by (simp add: e is_dict_def)
  show "entry_slug (manifest_entry L m) = slug m"
    by (simp add: e entry_slug_def kwarg_def dict_get_def)
qed

lemma filter_items_dicts:
  assumes "list_all is_dict items"
  shows "filter_items L (PStr s) items = Inr (filter (\<lambda>i. entry_slug i \<noteq> PStr s) items)"
  using assms
proof (induction items)
  case Nil
  then show ?case by simp
next
  case (Cons i items)
  then obtain d where "i = PDict d" by (cases i) (simp_all add: is_dict_def)
  with Cons show ?case by (simp add: py_eq_str entry_slug_def)
qed

lemma manifest_ok_items:
  assumes "manifest_ok fs out_dir"
  shows "read_items fs (path_join out_dir ''manifest.json'') = PList (manifest_items fs out_dir)"
    and "list_all (\<lambda>i. is_dict i \<and> json_value i) (manifest_items fs out_dir)"
  using assms
  by (auto simp add: manifest_ok_def manifest_items_def read_items_def
      split: option.splits stored.splits pyval.splits)

text \<open>
  One call of \<^verbatim>\<open>write_manifest\<close> with metadata as declared, on a manifest that is
  absent, unparseable or an array of objects: the entries with another slug are
  kept in their order, the new entry is appended, and the sidecar is written.
\<close>

lemma write_manifest_typed:
  assumes "ArticleMeta_typed m" and "manifest_ok fs out_dir"
  shows "write_manifest L fs out_dir m =
     (fs(path_join out_dir ''manifest.json'' \<mapsto>
           Json (PList (filter (\<lambda>i. entry_slug i \<noteq> slug m) (manifest_items fs out_dir)
                        @ [manifest_entry L m])),
         path_join out_dir (py_str L (slug m) @ ''.meta.json'') \<mapsto> Json (manifest_entry L m)),
      None)"
proof -
  from assms(1) obtain s where s: "slug m = PStr s"
    by (auto simp add: ArticleMeta_typed_def dest!: is_str_E)
  note items = manifest_ok_items [OF assms(2)]
  have dicts: "list_all is_dict (manifest_items fs out_dir)"
    and jsons: "list_all json_value (manifest_items fs out_dir)"
    using items(2) by (simp_all add: list_all_iff)
  have jv: "json_value (PList (filter (\<lambda>i. entry_slug i \<noteq> slug m) (manifest_items fs out_dir)
                        @ [manifest_entry L m]))"
    using jsons manifest_entry_typed(2) [OF assms(1)] by (auto simp add: list_all_iff)
  have fi: "filter_items L (slug m) (manifest_items fs out_dir) =
      Inr (filter (\<lambda>i. entry_slug i \<noteq> slug m) (manifest_items fs out_dir))"
    unfolding s by (rule filter_items_dicts [OF dicts])
  have d1: "json_dump L (PList (filter (\<lambda>i. entry_slug i \<noteq> slug m) (manifest_items fs out_dir)
                        @ [manifest_entry L m])) =
      Some (PList (filter (\<lambda>i. entry_slug i \<noteq> slug m) (manifest_items fs out_dir)
                        @ [manifest_entry L m]))"
    using jv by (simp only: json_dump_def if_True)
  have d2: "json_dump L (manifest_entry L m) = Some (manifest_entry L m)"
    using manifest_entry_typed(2) [OF assms(1), of L] by (simp only: json_dump_def if_True)
  show ?thesis
    by (simp add: write_manifest_def Let_def items(1) py_iter_def fi json_dump_to_def d1 d2)
qed

lemma write_manifest_typed_items:
  assumes "ArticleMeta_typed m" and "manifest_ok fs out_dir"
  shows "snd (write_manifest L fs out_dir m) = None"
    and "fst (write_manifest L fs out_dir m) (path_join out_dir ''manifest.json'') =
       Some (Json (PList (filter (\<lambda>i. entry_slug i \<noteq> slug m) (manifest_items fs out_dir)
                        @ [manifest_entry L m])))"
    and "manifest_items (fst (write_manifest L fs out_dir m)) out_dir =
       filter (\<lambda>i. entry_slug i \<noteq> slug m) (manifest_items fs out_dir) @ [manifest_entry L m]"
    and "manifest_ok (fst (write_manifest L fs out_dir m)) out_dir"
proof -
  note w = write_manifest_typed [OF assms, of L]
  note ne = sidecar_not_manifest [of out_dir "py_str L (slug m)"]
  show "snd (write_manifest L fs out_dir m) = None" by (simp add: w)
  show f: "fst (write_manifest L fs out_dir m) (path_join out_dir ''manifest.json'') =
       Some (Json (PList (filter (\<lambda>i. entry_slug i \<noteq> slug m) (manifest_items fs out_dir)
                        @ [manifest_entry L m])))"
    using ne by (simp add: w)
  show "manifest_items (fst (write_manifest L fs out_dir m)) out_dir =
       filter (\<lambda>i. entry_slug i \<noteq> slug m) (manifest_items fs out_dir) @ [manifest_entry L m]"
    by (simp add: manifest_items_def read_items_def f)
  have "list_all (\<lambda>i. is_dict i \<and> json_value i) (manifest_items fs out_dir)"
    by (rule manifest_ok_items(2) [OF assms(2)])
  then show "manifest_ok (fst (write_manifest L fs out_dir m)) out_dir"
    using manifest_entry_typed(2,3) [OF assms(1), of L]
    by (simp add: manifest_ok_def f list_all_iff)
qed


section \<open>The manifest store: writing twice\<close>




section \<open>The manifest store: upsert order\<close>




section \<open>The manifest store: reading the manifest back\<close>



lemma entry_meta_manifest_entry:
  assumes "ArticleMeta_typed m"
  shows "entry_meta (manifest_entry L m) = Some (m\<lparr>hero_image := PNone, cover_credit := PNone\<rparr>)"
  by (simp add: manifest_entry_typed(1) [OF assms] entry_meta_def ArticleMeta_kwargs_def
      kwargs_ok_def kwarg_def dict_get_def)




text \<open>
  The hypothesis on the other entries holds of every manifest that the program itself
  has built: a manifest without entries reconstructs, and \<^verbatim>\<open>write_manifest\<close> keeps
  that.
\<close>

lemma manifest_reconstructs_empty:
  "manifest_ok fs out_dir \<Longrightarrow> manifest_items fs out_dir = [] \<Longrightarrow>
   manifest_reconstructs fs out_dir"
  by (simp add: manifest_reconstructs_def)

lemma write_manifest_keeps_reconstructs:
  assumes "ArticleMeta_typed m" and "manifest_reconstructs fs out_dir"
  shows "manifest_reconstructs (fst (write_manifest L fs out_dir m)) out_dir"
proof -
  from assms(2) have ok: "manifest_ok fs out_dir"
    and all: "list_all (\<lambda>i. entry_meta i \<noteq> None) (manifest_items fs out_dir)"
    by (simp_all add: manifest_reconstructs_def)
  note w = write_manifest_typed_items [OF assms(1) ok, of L]
  from all show ?thesis
    by (simp add: manifest_reconstructs_def w(3,4) list_all_iff
        entry_meta_manifest_entry [OF assms(1)])
qed

section \<open>Index reconstruction: a malformed entry\<close>

lemma reconstruct_entries_stops:
  assumes "list_all (\<lambda>i. entry_meta i \<noteq> None) good" and "entry_meta bad = None"
  shows "reconstruct_entries (good @ bad # rest) = (map (\<lambda>i. the (entry_meta i)) good, True)"
  using assms(1)
proof (induction good)
  case Nil
  from assms(2) show ?case
    by (cases bad) (auto simp add: entry_meta_def split: sum.splits)
next
  case (Cons i good)
  then obtain am where "entry_meta i = Some am" by auto
  then obtain d where "i = PDict d" "ArticleMeta_kwargs d = Inr am"
    by (cases i) (auto simp add: entry_meta_def split: sum.splits)
  with Cons show ?case by (simp add: entry_meta_def)
qed

text \<open>
  C2. The claim is that a manifest entry that fails to reconstruct is skipped and
  every other entry is still reconstructed. The code runs the loop inside the
  \<^verbatim>\<open>try\<close>: on the manifest
  \<^verbatim>\<open>[{"title": "A", "slug": "a"}, {"slug": "x"}, {"title": "B", "slug": "b"}]\<close> the
  second entry raises and the loop ends. The third entry, which reconstructs on its
  own, is not among the articles; the first one is, so the sidecar files are not read
  either, and the index is rendered from the first entry alone; one warning is
  printed.
\<close>

theorem write_index_read_manifest_stops_at_bad_entry:
  "manifest_items sample_out_bad_entry ''/out'' =
     [PDict [(PStr ''title'', PStr ''A''), (PStr ''slug'', PStr ''a'')],
      PDict [(PStr ''slug'', PStr ''x'')],
      PDict [(PStr ''title'', PStr ''B''), (PStr ''slug'', PStr ''b'')]]
   \<and> entry_meta (PDict [(PStr ''slug'', PStr ''x'' :: real pyval)]) = None
   \<and> entry_meta (PDict [(PStr ''title'', PStr ''B''), (PStr ''slug'', PStr ''b'' :: real pyval)]) =
       Some \<lparr>title = PStr ''B'', slug = PStr ''b'', description = PNone, meta_date = PNone,
             tags = PList [], hero_image = PNone, cover_credit = PNone\<rparr>
   \<and> write_index_read_manifest sample_out_bad_entry ''/out'' =
       ([\<lparr>title = PStr ''A'', slug = PStr ''a'', description = PNone, meta_date = PNone,
          tags = PList [], hero_image = PNone, cover_credit = PNone\<rparr>], [warn_manifest])
   \<and> write_index_articles sample_out_bad_entry ''/out'' [''manifest.json'', ''b.meta.json''] =
       ([warn_manifest],
        Inr [\<lparr>title = PStr ''A'', slug = PStr ''a'', description = PNone, meta_date = PNone,
          tags = PList [], hero_image = PNone, cover_credit = PNone\<rparr>])"
proof -
  have r: "write_index_read_manifest sample_out_bad_entry ''/out'' =
       ([\<lparr>title = PStr ''A'', slug = PStr ''a'', description = PNone, meta_date = PNone,
          tags = PList [], hero_image = PNone, cover_credit = PNone\<rparr>], [warn_manifest])"
    by (simp add: sample_out_bad_entry_def path_join_def ArticleMeta_kwargs_def kwargs_ok_def
        kwarg_def dict_get_def write_index_read_manifest_def py_iter_def)
  show ?thesis
    by (simp add: r write_index_articles_def)
      (simp add: manifest_items_def read_items_def sample_out_bad_entry_def path_join_def
        entry_meta_def ArticleMeta_kwargs_def kwargs_ok_def kwarg_def dict_get_def)
qed

text \<open>
  The sidecar loop of the same function, on the same three entries as sidecar files,
  skips the one that does not reconstruct and keeps the two others.
\<close>

lemma read_sidecars_skips_bad_entry:
  "read_sidecars
     [''/out/a.meta.json'' \<mapsto> Json (PDict [(PStr ''title'', PStr ''A''), (PStr ''slug'', PStr ''a'')]),
      ''/out/x.meta.json'' \<mapsto> Json (PDict [(PStr ''slug'', PStr ''x'')]),
      ''/out/b.meta.json'' \<mapsto> Json (PDict [(PStr ''title'', PStr ''B''), (PStr ''slug'', PStr ''b'')])]
     ''/out'' [''a.meta.json'', ''x.meta.json'', ''index.html'', ''b.meta.json''] =
   Inr [\<lparr>title = PStr ''A'', slug = PStr ''a'', description = PNone, meta_date = PNone,
          tags = PList [], hero_image = PNone, cover_credit = PNone :: real pyval\<rparr>,
        \<lparr>title = PStr ''B'', slug = PStr ''b'', description = PNone, meta_date = PNone,
          tags = PList [], hero_image = PNone, cover_credit = PNone\<rparr>]"
  by (simp add: endswith_def path_join_def ArticleMeta_kwargs_def kwargs_ok_def kwarg_def
      dict_get_def)

end
